theory Spec2Isabelle
  imports Complex_Main
begin

section \<open>Python values, exceptions and results\<close>

text \<open>
  Every \<^verbatim>\<open>raise\<close>, failed \<^verbatim>\<open>assert\<close> and interpreter error of the
  source is a value: a function that may raise returns \<open>py_error + 'a\<close>, with \<open>Inl\<close> the
  exception. Exceptions whose message is written in the source carry it.
  Arrays are of double precision floats in the source; here their entries are real
  numbers, so rounding is outside the model.
\<close>

datatype py_error =
    AssertionError string
  | NotImplementedError string
  | AttributeError
  | IndexError
  | KeyError
  | TypeError
  | ValueError
  | ZeroDivisionError
  | UnboundLocalError
  | NonFinite

definition bind_res :: "'e + 'a \<Rightarrow> ('a \<Rightarrow> 'e + 'b) \<Rightarrow> 'e + 'b" where
  "bind_res r k = (case r of Inl e \<Rightarrow> Inl e | Inr x \<Rightarrow> k x)"

section \<open>Sparse matrices and vectors\<close>

text \<open>
  A \<^verbatim>\<open>scipy.sparse\<close> matrix is its shape and its entries; a vector is the list of its
  entries. Products check the dimensions as scipy does (\<^verbatim>\<open>ValueError: dimension
  mismatch\<close>).
\<close>

record matrix =
  shape0 :: nat
  shape1 :: nat
  entry :: "nat \<Rightarrow> nat \<Rightarrow> real"

definition T :: "matrix \<Rightarrow> matrix" where
  \<comment> \<open>\<^verbatim>\<open>A.T\<close>\<close>
  "T A = \<lparr>shape0 = shape1 A, shape1 = shape0 A, entry = (\<lambda>i j. entry A j i)\<rparr>"

definition row_times :: "matrix \<Rightarrow> real list \<Rightarrow> nat \<Rightarrow> real" where
  "row_times A x i = sum_list (map (\<lambda>j. entry A i j * x ! j) [0..<shape1 A])"

definition csr_dot :: "matrix \<Rightarrow> real list \<Rightarrow> py_error + real list" where
  \<comment> \<open>\<^verbatim>\<open>csr.dot(A, x)\<close> and \<^verbatim>\<open>A * x\<close> for a sparse \<open>A\<close> and a vector \<open>x\<close>\<close>
  "csr_dot A x =
     (if length x \<noteq> shape1 A then Inl ValueError
      else Inr (map (row_times A x) [0..<shape0 A]))"

definition da_dot :: "real list \<Rightarrow> real list \<Rightarrow> py_error + real" where
  \<comment> \<open>\<^verbatim>\<open>da.dot(u, v)\<close> of two vectors\<close>
  "da_dot u v =
     (if length u \<noteq> length v then Inl ValueError
      else Inr (sum_list (map (\<lambda>(a, b). a * b) (zip u v))))"

definition from_delayed :: "real list \<Rightarrow> nat \<Rightarrow> real list" where
  \<comment> \<open>\<^verbatim>\<open>da.from_delayed(value, dtype=float, shape=[n])\<close>: dask trusts the declared shape
      and makes no check of it; the array holds the value the deferred call returns.\<close>
  "from_delayed v n = v"

definition scal :: "real \<Rightarrow> real list \<Rightarrow> real list" where
  \<comment> \<open>a scalar times a vector\<close>
  "scal a v = map (\<lambda>x. a * x) v"

definition sdiag :: "real list \<Rightarrow> matrix" where
  \<comment> \<open>Modelled from the spec: \<^verbatim>\<open>Utils.sdiag\<close>, the "diagonal-matrix construction" helper,
      is not among the sources. It builds the square sparse matrix with the given vector
      on its diagonal.\<close>
  "sdiag v = \<lparr>shape0 = length v, shape1 = length v,
              entry = (\<lambda>i j. if i = j \<and> i < length v then v ! i else 0)\<rparr>"

definition norm2 :: "real list \<Rightarrow> real" where
  \<comment> \<open>\<^verbatim>\<open>np.linalg.norm(v, 2)\<close>\<close>
  "norm2 v = sqrt (sum_list (map (\<lambda>x. x * x) v))"

section \<open>DataMisfit.py\<close>

text \<open>
  The collaborators of the misfit: the forward problem (\<^verbatim>\<open>fields\<close> as \<open>prob_fields\<close>, \<^verbatim>\<open>Jtvec\<close>,
  \<^verbatim>\<open>Jvec_approx\<close>, \<^verbatim>\<open>Jtvec_approx\<close>) and the survey (\<^verbatim>\<open>dobs\<close>, \<^verbatim>\<open>nD\<close>,
  \<^verbatim>\<open>residual\<close>, optional \<^verbatim>\<open>std\<close> and \<^verbatim>\<open>eps\<close>, \<^verbatim>\<open>ispaired\<close>, \<^verbatim>\<open>prob\<close>). Their
  classes are not among the sources, so their methods are fields of a record (a survey
  is an instance of \<^verbatim>\<open>Survey.BaseSurvey\<close>). \<open>'f\<close> is the type of fields objects. \<^verbatim>\<open>getattr(survey, 'std', None)\<close> is \<open>survey_std\<close>.
\<close>

record 'f problem =
  prob_fields :: "real list \<Rightarrow> 'f"
  Jtvec :: "real list \<Rightarrow> real list \<Rightarrow> 'f \<Rightarrow> real list"
  Jvec_approx :: "real list \<Rightarrow> real list \<Rightarrow> 'f \<Rightarrow> real list"
  Jtvec_approx :: "real list \<Rightarrow> real list \<Rightarrow> 'f \<Rightarrow> real list"

record 'f survey =
  ispaired :: bool
  survey_prob :: "'f problem"
  dobs :: "real list"
  nD :: nat
  survey_std :: "real option"
  survey_eps :: "real option"
  residual :: "real list \<Rightarrow> 'f \<Rightarrow> real list"

text \<open>
  An \<^verbatim>\<open>l2_DataMisfit\<close> instance. \<open>W_cache\<close> is the attribute \<^verbatim>\<open>_W\<close> (\<open>None\<close> while it is
  unset); \<open>scale\<close> is inherited from the objective function base class (default 1).
\<close>

record 'f l2_DataMisfit =
  survey :: "'f survey"
  prob :: "'f problem"
  std :: real
  eps :: real
  W_cache :: "matrix option"
  scale :: real

definition eps_factor :: real where
  "eps_factor = 1 / 100000"

definition std_notice :: string where
  "std_notice = ''SimPEG.DataMisfit.l2_DataMisfit assigning default std of 5%''"

definition eps_notice :: string where
  "eps_notice = ''SimPEG.DataMisfit.l2_DataMisfit assigning default eps of 1e-5 * ||dobs||''"

definition init_std :: "'f survey \<Rightarrow> real option \<Rightarrow> real \<times> string list" where
  \<comment> \<open>lines 70-78; the second component is what is printed\<close>
  "init_std sv kw_std =
     (case kw_std of
        Some s \<Rightarrow> (s, [])
      | None \<Rightarrow>
          (case survey_std sv of
             None \<Rightarrow> (5 / 100, [std_notice])
           | Some s \<Rightarrow> (s, [])))"

definition init_eps :: "'f survey \<Rightarrow> real option \<Rightarrow> real \<times> string list" where
  \<comment> \<open>lines 80-90\<close>
  "init_eps sv kw_eps =
     (case kw_eps of
        Some e \<Rightarrow> (e, [])
      | None \<Rightarrow>
          (case survey_eps sv of
             None \<Rightarrow> (norm2 (dobs sv) * eps_factor, [eps_notice])
           | Some e \<Rightarrow> (e, [])))"

definition l2_DataMisfit_init ::
  "'f survey \<Rightarrow> real option \<Rightarrow> real option \<Rightarrow> py_error + ('f l2_DataMisfit \<times> string list)" where
  \<comment> \<open>\<^verbatim>\<open>l2_DataMisfit(survey, std=..., eps=...)\<close>: the instance and the printed lines.
      The keyword arguments override the class attributes \<^verbatim>\<open>std = None\<close>, \<^verbatim>\<open>eps = None\<close>.\<close>
  "l2_DataMisfit_init sv kw_std kw_eps =
     (if \<not> ispaired sv then Inl (AssertionError ''The survey must be paired to a problem.'')
      else
        let (s, out1) = init_std sv kw_std;
            (e, out2) = init_eps sv kw_eps
        in Inr (\<lparr>survey = sv, prob = survey_prob sv, std = s, eps = e,
                  W_cache = None, scale = 1\<rparr>, out1 @ out2))"

definition default_W :: "'f l2_DataMisfit \<Rightarrow> py_error + matrix" where
  \<comment> \<open>\<^verbatim>\<open>Utils.sdiag(1/(abs(survey.dobs)*self.std+self.eps))\<close>. Where a denominator is 0
      numpy warns and stores an infinity, which is no real number: \<open>NonFinite\<close>.\<close>
  "default_W dm =
     (let d = map (\<lambda>x. \<bar>x\<bar> * std dm + eps dm) (dobs (survey dm))
      in if 0 \<in> set d then Inl NonFinite else Inr (sdiag (map (\<lambda>x. 1 / x) d)))"

definition W_get :: "'f l2_DataMisfit \<Rightarrow> py_error + (matrix \<times> 'f l2_DataMisfit)" where
  \<comment> \<open>the property \<^verbatim>\<open>W\<close>: the matrix and the instance, with \<^verbatim>\<open>_W\<close> now set\<close>
  "W_get dm =
     (case W_cache dm of
        Some W \<Rightarrow> Inr (W, dm)
      | None \<Rightarrow> bind_res (default_W dm) (\<lambda>W. Inr (W, dm\<lparr>W_cache := Some W\<rparr>)))"

definition the_fields :: "'f l2_DataMisfit \<Rightarrow> real list \<Rightarrow> 'f option \<Rightarrow> 'f" where
  \<comment> \<open>\<^verbatim>\<open>if f is None: f = self.prob.fields(m)\<close>\<close>
  "the_fields dm m f = (case f of None \<Rightarrow> prob_fields (prob dm) m | Some f' \<Rightarrow> f')"

definition call :: "'f l2_DataMisfit \<Rightarrow> real list \<Rightarrow> 'f option \<Rightarrow> py_error + (real \<times> 'f l2_DataMisfit)" where
  \<comment> \<open>\<^verbatim>\<open>__call__(m, f=None)\<close>. The deferred graph is modelled by its value.\<close>
  "call dm m f =
     (let f = the_fields dm m f in
      bind_res (W_get dm) (\<lambda>(W, dm1).
      bind_res (csr_dot W (residual (survey dm1) m f)) (\<lambda>W_res.
      bind_res (W_get dm1) (\<lambda>(W', dm2).
      let vec = from_delayed W_res (shape1 W') in
      bind_res (da_dot vec vec) (\<lambda>d. Inr (1 / 2 * d, dm2))))))"

definition deriv :: "'f l2_DataMisfit \<Rightarrow> real list \<Rightarrow> 'f option \<Rightarrow> py_error + (real list \<times> 'f l2_DataMisfit)" where
  \<comment> \<open>\<^verbatim>\<open>deriv(m, f=None)\<close>\<close>
  "deriv dm m f =
     (let f = the_fields dm m f in
      bind_res (W_get dm) (\<lambda>(W, dm1).
      bind_res (csr_dot W (residual (survey dm1) m f)) (\<lambda>w_d.
      bind_res (W_get dm1) (\<lambda>(W', dm2).
      bind_res (csr_dot (T W') (scal (scale dm2) w_d)) (\<lambda>wtw_d.
      bind_res (W_get dm2) (\<lambda>(W'', dm3).
      let row = from_delayed wtw_d (shape0 W'') in
      Inr (Jtvec (prob dm3) m row f, dm3)))))))"

definition deriv2 :: "'f l2_DataMisfit \<Rightarrow> real list \<Rightarrow> real list \<Rightarrow> 'f option \<Rightarrow> py_error + (real list \<times> 'f l2_DataMisfit)" where
  \<comment> \<open>\<^verbatim>\<open>deriv2(m, v, f=None)\<close>\<close>
  "deriv2 dm m v f =
     (let f = the_fields dm m f;
          jtvec = Jvec_approx (prob dm) m v f in
      bind_res (W_get dm) (\<lambda>(W, dm1).
      bind_res (csr_dot W jtvec) (\<lambda>w_jtvec.
      bind_res (W_get dm1) (\<lambda>(W', dm2).
      bind_res (csr_dot (T W') w_jtvec) (\<lambda>wtw_jtvec.
      bind_res (W_get dm2) (\<lambda>(W'', dm3).
      let row = from_delayed wtw_jtvec (shape0 W'') in
      Inr (Jtvec_approx (prob dm3) m row f, dm3)))))))"

subsection \<open>Assigning the weighting matrix\<close>

text \<open>
  \<^verbatim>\<open>str.format\<close> as far as the source uses it: the text outside braces is copied, a
  replacement field \<^verbatim>\<open>{name}\<close> is looked up among the keyword arguments
  (\<^verbatim>\<open>KeyError\<close> when it is missing), a field \<^verbatim>\<open>{n}\<close> with a number among the positional
  arguments (\<^verbatim>\<open>IndexError\<close> when there are too few), and fields are replaced from left
  to right, so the first failing field raises. Conversions and format specifications
  are not modelled; the arguments are given by their \<^verbatim>\<open>str\<close>.
\<close>

definition is_digit :: "char \<Rightarrow> bool" where
  "is_digit c = (c \<in> set ''0123456789'')"

definition nat_of_digits :: "string \<Rightarrow> nat" where
  "nat_of_digits ds = foldl (\<lambda>n c. 10 * n + (of_char c - 48)) 0 ds"

definition get_field :: "string list \<Rightarrow> (string \<times> string) list \<Rightarrow> string \<Rightarrow> py_error + string" where
  "get_field args kwargs name =
     (if name \<noteq> [] \<and> list_all is_digit name then
        (let i = nat_of_digits name
         in if i < length args then Inr (args ! i) else Inl IndexError)
      else (case map_of kwargs name of None \<Rightarrow> Inl KeyError | Some v \<Rightarrow> Inr v))"

fun format_from ::
  "string list \<Rightarrow> (string \<times> string) list \<Rightarrow> string option \<Rightarrow> string \<Rightarrow> py_error + string" where
  "format_from args kwargs None [] = Inr []"
| "format_from args kwargs (Some name) [] = Inl ValueError"
| "format_from args kwargs None (c # cs) =
     (if c = CHR ''{'' then format_from args kwargs (Some []) cs
      else if c = CHR ''}'' then Inl ValueError
      else bind_res (format_from args kwargs None cs) (\<lambda>rest. Inr (c # rest)))"
| "format_from args kwargs (Some name) (c # cs) =
     (if c = CHR ''}'' then
        bind_res (get_field args kwargs name) (\<lambda>v.
        bind_res (format_from args kwargs None cs) (\<lambda>rest. Inr (v @ rest)))
      else format_from args kwargs (Some (name @ [c])) cs)"

definition py_format :: "string \<Rightarrow> string list \<Rightarrow> (string \<times> string) list \<Rightarrow> py_error + string" where
  \<comment> \<open>\<^verbatim>\<open>fmt.format(*args, **kwargs)\<close>\<close>
  "py_format fmt args kwargs = format_from args kwargs None fmt"

fun str_nat :: "nat \<Rightarrow> string" where
  \<comment> \<open>\<^verbatim>\<open>str(n)\<close> of a natural number\<close>
  "str_nat n =
     (if n < 10 then [char_of (48 + n)] else str_nat (n div 10) @ [char_of (48 + n mod 10)])"

declare str_nat.simps [simp del]

datatype array_value = Arr1 "real list" | Arr2 matrix

definition W_message :: string where
  "W_message = ''W must have shape ({nD},{nD}), not ({val0}, val{1})''"

definition W_set :: "'f l2_DataMisfit \<Rightarrow> array_value \<Rightarrow> py_error + 'f l2_DataMisfit" where
  \<comment> \<open>the setter of \<^verbatim>\<open>W\<close>, for a vector (\<^verbatim>\<open>len(value.shape) < 2\<close>) or a matrix. The
      message of the \<^verbatim>\<open>assert\<close> is only computed when the condition fails.\<close>
  "W_set dm value =
     (let value = (case value of Arr1 v \<Rightarrow> sdiag v | Arr2 M \<Rightarrow> M);
          n = nD (survey dm)
      in if (shape0 value, shape1 value) = (n, n) then Inr (dm\<lparr>W_cache := Some value\<rparr>)
         else bind_res
                (py_format W_message []
                   [(''nD'', str_nat n), (''val0'', str_nat (shape0 value)),
                    (''val1'', str_nat (shape1 value))])
                (\<lambda>msg. Inl (AssertionError msg)))"

subsection \<open>A small linear problem\<close>

text \<open>
  One model parameter, two data, observed data \<open>(3, 4)\<close>. A fields object is a number
  \<open>f\<close>, computed from the model as its first entry; the predicted data are \<open>(f, 2 f)\<close>
  and the Jacobian is the column \<open>(f, 2 f)\<close>, so that every result depends on the fields
  object that is used.
\<close>

definition ex_prob :: "real problem" where
  "ex_prob = \<lparr>prob_fields = (\<lambda>m. m ! 0),
               Jtvec = (\<lambda>m row f. [f * (row ! 0 + 2 * row ! 1)]),
               Jvec_approx = (\<lambda>m v f. [f * v ! 0, 2 * f * v ! 0]),
               Jtvec_approx = (\<lambda>m row f. [f * (row ! 0 + 2 * row ! 1)])\<rparr>"

definition ex_survey :: "real survey" where
  "ex_survey = \<lparr>ispaired = True, survey_prob = ex_prob, dobs = [3, 4], nD = 2,
                 survey_std = None, survey_eps = None,
                 residual = (\<lambda>m f. [f - 3, 2 * f - 4])\<rparr>"

definition ex_dm :: "real l2_DataMisfit" where
  "ex_dm = \<lparr>survey = ex_survey, prob = ex_prob, std = 1 / 20, eps = 1 / 20000,
             W_cache = Some (sdiag [2, 3]), scale = 1\<rparr>"

subsection \<open>The scenario of the specification\<close>

text \<open>
  Observed data \<open>(1, 2)\<close>, no \<^verbatim>\<open>std\<close> and no \<^verbatim>\<open>eps\<close> on the survey, and the residual
  \<open>(0.1, -0.2)\<close>. \<open>scenario_dm\<close> is the instance the constructor returns, \<open>scenario_W\<close>
  and \<open>scenario_value\<close> are the default weighting and the misfit written out.
\<close>

definition scenario_survey :: "real survey" where
  "scenario_survey = \<lparr>ispaired = True, survey_prob = ex_prob, dobs = [1, 2], nD = 2,
                       survey_std = None, survey_eps = None,
                       residual = (\<lambda>m f. [1 / 10, - 2 / 10])\<rparr>"

definition scenario_dm :: "real l2_DataMisfit" where
  "scenario_dm = \<lparr>survey = scenario_survey, prob = ex_prob, std = 5 / 100,
                   eps = sqrt 5 / 100000, W_cache = None, scale = 1\<rparr>"

definition scenario_W :: matrix where
  "scenario_W = sdiag [1 / (1 * (5 / 100) + sqrt 5 / 100000), 1 / (2 * (5 / 100) + sqrt 5 / 100000)]"

definition scenario_value :: real where
  "scenario_value =
     1 / 2 * ((1 / (1 * (5 / 100) + sqrt 5 / 100000) * (1 / 10))\<^sup>2
            + (1 / (2 * (5 / 100) + sqrt 5 / 100000) * (- 2 / 10))\<^sup>2)"

section \<open>EM/TDEM/SrcTDEM.py: waveforms\<close>

text \<open>
  The four waveform classes. An instance holds its class and its attributes;
  \<^verbatim>\<open>hasInitialFields\<close> defaults to \<open>False\<close>, \<^verbatim>\<open>offTime\<close> to 0, and \<^verbatim>\<open>waveFct\<close> is only
  set by \<^verbatim>\<open>RawWaveform\<close>.
\<close>

datatype wf_class = BaseWaveform | StepOffWaveform | RawWaveform | TriangularWaveform

record waveform =
  cls :: wf_class
  hasInitialFields :: bool
  offTime :: real
  waveFct :: "(real \<Rightarrow> py_error + real) option"

definition new_waveform :: "wf_class \<Rightarrow> waveform" where
  \<comment> \<open>the instance before \<^verbatim>\<open>__init__\<close> runs: the class attributes\<close>
  "new_waveform c = \<lparr>cls = c, hasInitialFields = False, offTime = 0, waveFct = None\<rparr>"

definition setKwargs :: "waveform \<Rightarrow> real option \<Rightarrow> bool option \<Rightarrow> waveform" where
  \<comment> \<open>Modelled from the spec: \<^verbatim>\<open>Utils.setKwargs\<close> is not among the sources; it sets the
      attributes named by the keyword arguments, here \<^verbatim>\<open>offTime\<close> and
      \<^verbatim>\<open>hasInitialFields\<close>.\<close>
  "setKwargs self kw_offTime kw_hasInitialFields =
     (let self = (case kw_offTime of None \<Rightarrow> self | Some t \<Rightarrow> self\<lparr>offTime := t\<rparr>)
      in (case kw_hasInitialFields of None \<Rightarrow> self | Some b \<Rightarrow> self\<lparr>hasInitialFields := b\<rparr>))"

definition BaseWaveform_init ::
  "waveform \<Rightarrow> 'a list \<Rightarrow> real option \<Rightarrow> bool option \<Rightarrow> py_error + waveform" where
  \<comment> \<open>\<^verbatim>\<open>def __init__(self, **kwargs)\<close>, called with the positional arguments \<open>args\<close>
      after \<open>self\<close> and the keyword arguments: the signature takes no positional argument
      but \<open>self\<close>, so any other is a \<^verbatim>\<open>TypeError\<close> of the call.\<close>
  "BaseWaveform_init self args kw_offTime kw_hasInitialFields =
     (if args \<noteq> [] then Inl TypeError
      else Inr (setKwargs self kw_offTime kw_hasInitialFields))"

definition StepOffWaveform_init :: "real \<Rightarrow> py_error + waveform" where
  \<comment> \<open>\<^verbatim>\<open>BaseWaveform.__init__(self, offTime=offTime, hasInitialFields=True)\<close>\<close>
  "StepOffWaveform_init t =
     BaseWaveform_init (new_waveform StepOffWaveform) ([] :: unit list) (Some t) (Some True)"

definition RawWaveform_init ::
  "real \<Rightarrow> (real \<Rightarrow> py_error + real) option \<Rightarrow> bool option \<Rightarrow> py_error + waveform" where
  \<comment> \<open>\<^verbatim>\<open>self.waveFct = waveFct; BaseWaveform.__init__(self, offTime=offTime, **kwargs)\<close>\<close>
  "RawWaveform_init t fct kw_hasInitialFields =
     BaseWaveform_init ((new_waveform RawWaveform)\<lparr>waveFct := fct\<rparr>) ([] :: unit list)
       (Some t) kw_hasInitialFields"

definition TriangularWaveform_init :: "'a \<Rightarrow> py_error + waveform" where
  \<comment> \<open>\<^verbatim>\<open>BaseWaveform.__init__(self, offTime, hasInitialFields=True)\<close>: \<open>offTime\<close> is passed
      by position\<close>
  "TriangularWaveform_init t =
     BaseWaveform_init (new_waveform TriangularWaveform) [t] None (Some True)"

definition triangular_message :: string where
  "triangular_message = ''TriangularWaveform has not been implemented, you should write it!''"

definition waveform_eval :: "waveform \<Rightarrow> real \<Rightarrow> py_error + real" where
  \<comment> \<open>\<^verbatim>\<open>eval(self, time)\<close>, by the class of \<open>self\<close>. A \<^verbatim>\<open>RawWaveform\<close> whose \<^verbatim>\<open>waveFct\<close> is
      \<^verbatim>\<open>None\<close> calls \<^verbatim>\<open>None\<close>: a \<^verbatim>\<open>TypeError\<close>.\<close>
  "waveform_eval self time =
     (case cls self of
        BaseWaveform \<Rightarrow> Inl (NotImplementedError [])
      | StepOffWaveform \<Rightarrow> Inr 0
      | RawWaveform \<Rightarrow> (case waveFct self of None \<Rightarrow> Inl TypeError | Some g \<Rightarrow> g time)
      | TriangularWaveform \<Rightarrow> Inl (NotImplementedError triangular_message))"

definition isinstance_wf :: "waveform \<Rightarrow> wf_class \<Rightarrow> bool" where
  \<comment> \<open>\<^verbatim>\<open>isinstance(self, pair)\<close>: every class derives from \<^verbatim>\<open>BaseWaveform\<close> only\<close>
  "isinstance_wf self pair = (cls self = pair \<or> pair = BaseWaveform)"

definition wf_class_name :: "wf_class \<Rightarrow> string" where
  "wf_class_name c =
     (case c of BaseWaveform \<Rightarrow> ''BaseWaveform'' | StepOffWaveform \<Rightarrow> ''StepOffWaveform''
      | RawWaveform \<Rightarrow> ''RawWaveform'' | TriangularWaveform \<Rightarrow> ''TriangularWaveform'')"

definition pair_message :: string where
  \<comment> \<open>the format string has no replacement field, so \<^verbatim>\<open>.format(pair.__name__)\<close> leaves it
      as it is\<close>
  "pair_message = ''Waveform object must be an instance of a %s BaseWaveform class.''"

definition assertMatchesPair :: "waveform \<Rightarrow> wf_class \<Rightarrow> py_error + unit" where
  "assertMatchesPair self pair =
     (if isinstance_wf self pair then Inr () else Inl (AssertionError pair_message))"

section \<open>EM/TDEM/SrcTDEM.py: sources\<close>

text \<open>
  A value that can be assigned to the attribute \<^verbatim>\<open>waveform\<close>: a waveform object, or
  something else (\<^verbatim>\<open>None\<close>, a number, a string), which has no method
  \<^verbatim>\<open>_assertMatchesPair\<close> and no attribute \<^verbatim>\<open>hasInitialFields\<close>.
\<close>

datatype pyval = PyNone | PyFloat real | PyStr string | PyWaveform waveform

datatype src_class = BaseTDEMSrc | MagDipole | CircularLoop | LineCurrent

text \<open>
  A source instance. \<^verbatim>\<open>BaseTDEMSrc\<close> declares \<^verbatim>\<open>waveform\<close> as a property over the attribute
  \<^verbatim>\<open>_waveform\<close> (\<open>waveform_priv\<close>; \<open>None\<close> while the attribute is absent), and
  \<^verbatim>\<open>MagDipole\<close> and \<^verbatim>\<open>CircularLoop\<close> inherit it. \<^verbatim>\<open>LineCurrent\<close> declares the class
  attribute \<^verbatim>\<open>waveform = None\<close>, which comes first in its method resolution order: for
  its instances \<^verbatim>\<open>waveform\<close> is a plain attribute (\<open>waveform_attr\<close>; \<open>None\<close> while only the
  class attribute exists). \<open>StepOffWaveform_attr\<close> is what \<^verbatim>\<open>self.StepOffWaveform\<close> resolves
  to: the classes of this file define no such attribute, so it is \<open>None\<close> unless a base
  class outside these sources (\<^verbatim>\<open>BaseEMSrc\<close> and above) provides one.
\<close>

record source =
  src_cls :: src_class
  waveformPair :: wf_class
  waveform_priv :: "pyval option"
  waveform_attr :: "pyval option"
  StepOffWaveform_attr :: "(pyval \<Rightarrow> py_error + pyval) option"
  loc :: "real list"
  mu :: real
  moment :: real
  radius :: real

definition waveform_get :: "source \<Rightarrow> pyval" where
  \<comment> \<open>reading \<^verbatim>\<open>self.waveform\<close>: \<^verbatim>\<open>getattr(self, '_waveform', None)\<close> through the
      property, the plain attribute for a \<^verbatim>\<open>LineCurrent\<close>\<close>
  "waveform_get self =
     (if src_cls self = LineCurrent
      then (case waveform_attr self of None \<Rightarrow> PyNone | Some v \<Rightarrow> v)
      else (case waveform_priv self of None \<Rightarrow> PyNone | Some v \<Rightarrow> v))"

definition waveform_set :: "source \<Rightarrow> pyval \<Rightarrow> py_error + source" where
  \<comment> \<open>the assignment \<^verbatim>\<open>self.waveform = val\<close>\<close>
  "waveform_set self val =
     (if src_cls self = LineCurrent then Inr (self\<lparr>waveform_attr := Some val\<rparr>)
      else if waveform_get self = PyNone then
        (case val of
           PyWaveform w \<Rightarrow>
             bind_res (assertMatchesPair w (waveformPair self))
               (\<lambda>_. Inr (self\<lparr>waveform_priv := Some val\<rparr>))
         | _ \<Rightarrow> Inl AttributeError)
      else
        (case StepOffWaveform_attr self of
           None \<Rightarrow> Inl AttributeError
         | Some ctor \<Rightarrow> bind_res (ctor val) (\<lambda>w. Inr (self\<lparr>waveform_priv := Some w\<rparr>))))"

definition new_source :: "src_class \<Rightarrow> source" where
  \<comment> \<open>the instance before \<^verbatim>\<open>__init__\<close> runs, with the defaults of the class attributes
      (\<^verbatim>\<open>mu_0\<close> is not among the sources; its value plays no part below)\<close>
  "new_source c = \<lparr>src_cls = c, waveformPair = BaseWaveform, waveform_priv = None,
                   waveform_attr = None, StepOffWaveform_attr = None,
                   loc = [0, 0, 0], mu = 1, moment = 1, radius = 1\<rparr>"

definition default_waveform :: waveform where
  \<comment> \<open>the default argument \<^verbatim>\<open>StepOffWaveform()\<close>\<close>
  "default_waveform =
     \<lparr>cls = StepOffWaveform, hasInitialFields = True, offTime = 0, waveFct = None\<rparr>"

definition BaseTDEMSrc_init :: "source \<Rightarrow> pyval option \<Rightarrow> py_error + source" where
  \<comment> \<open>\<^verbatim>\<open>__init__(self, rxList, waveform=StepOffWaveform(), **kwargs)\<close>, the second of the
      two definitions in the class; \<^verbatim>\<open>MagDipole\<close> and \<^verbatim>\<open>CircularLoop\<close> call it. What
      \<^verbatim>\<open>BaseEMSrc.__init__\<close> does with the receivers is outside these sources.\<close>
  "BaseTDEMSrc_init self waveform =
     waveform_set self (case waveform of None \<Rightarrow> PyWaveform default_waveform | Some w \<Rightarrow> w)"

definition LineCurrent_init :: "source \<Rightarrow> pyval option \<Rightarrow> py_error + source" where
  \<comment> \<open>\<^verbatim>\<open>__init__(self, rxList, **kwargs)\<close> hands the keyword arguments to
      \<^verbatim>\<open>BaseEMSrc.__init__\<close>, which assigns them as attributes: a \<^verbatim>\<open>waveform\<close> keyword is
      the assignment \<^verbatim>\<open>self.waveform = val\<close>.\<close>
  "LineCurrent_init self kw_waveform =
     (case kw_waveform of None \<Rightarrow> Inr self | Some val \<Rightarrow> waveform_set self val)"

definition raw_ramp :: waveform where
  \<comment> \<open>an example: \<^verbatim>\<open>RawWaveform(waveFct=lambda t: 2*t)\<close>\<close>
  "raw_ramp = \<lparr>cls = RawWaveform, hasInitialFields = False, offTime = 0,
               waveFct = Some (\<lambda>t. Inr (2 * t))\<rparr>"

definition triangular_example :: waveform where
  \<comment> \<open>an instance of \<^verbatim>\<open>TriangularWaveform\<close> made without its constructor\<close>
  "triangular_example = \<lparr>cls = TriangularWaveform, hasInitialFields = True, offTime = 0,
                         waveFct = None\<rparr>"

subsection \<open>Forcing terms of the dipole and loop sources\<close>

text \<open>
  The forward problem as the sources read it: the mesh (grids of edge and face
  locations, the discrete curl \<^verbatim>\<open>edgeCurl\<close>, \<^verbatim>\<open>_meshType\<close>, \<^verbatim>\<open>isSymmetric\<close>), the tags
  \<^verbatim>\<open>_formulation\<close> and \<^verbatim>\<open>_fieldType\<close> (strings), the matrix \<^verbatim>\<open>MfMui\<close> and the time steps.
  The vector potentials \<^verbatim>\<open>MagneticDipoleVectorPotential\<close> and
  \<^verbatim>\<open>MagneticLoopVectorPotential\<close> come from \<^verbatim>\<open>SimPEG.EM.Utils\<close>, outside these sources:
  they are parameters, with the arguments in the order source location, observation
  locations, component, \<^verbatim>\<open>mu\<close>, and \<^verbatim>\<open>moment\<close> or \<^verbatim>\<open>radius\<close>.
\<close>

type_synonym grid = "real list list"

record mesh =
  gridEx :: grid
  gridEy :: grid
  gridEz :: grid
  gridFx :: grid
  gridFy :: grid
  gridFz :: grid
  edgeCurl :: matrix
  meshType :: string
  isSymmetric :: bool

record tdem_problem =
  mesh :: mesh
  formulation :: string
  fieldType :: string
  MfMui :: matrix
  timeSteps :: "real list"

record em_utils =
  MagneticDipoleVectorPotential :: "real list \<Rightarrow> grid \<Rightarrow> string \<Rightarrow> real \<Rightarrow> real \<Rightarrow> real list"
  MagneticLoopVectorPotential :: "real list \<Rightarrow> grid \<Rightarrow> string \<Rightarrow> real \<Rightarrow> real \<Rightarrow> real list"

datatype term_val = Zero | Vec "real list" | NoneReturned

definition srcFct :: "em_utils \<Rightarrow> source \<Rightarrow> grid \<Rightarrow> string \<Rightarrow> py_error + real list" where
  \<comment> \<open>\<^verbatim>\<open>_srcFct\<close> of \<^verbatim>\<open>MagDipole\<close>, overridden by \<^verbatim>\<open>CircularLoop\<close>; the other classes
      have no such method\<close>
  "srcFct U self obsLoc component =
     (case src_cls self of
        MagDipole \<Rightarrow>
          Inr (MagneticDipoleVectorPotential U (loc self) obsLoc component (mu self) (moment self))
      | CircularLoop \<Rightarrow>
          Inr (MagneticLoopVectorPotential U (loc self) obsLoc component (mu self) (radius self))
      | _ \<Rightarrow> Inl AttributeError)"

definition bSrc_grids :: "tdem_problem \<Rightarrow> (grid \<times> grid \<times> grid \<times> matrix) option" where
  \<comment> \<open>lines 189-199: the locals \<^verbatim>\<open>gridX\<close>, \<^verbatim>\<open>gridY\<close>, \<^verbatim>\<open>gridZ\<close>, \<^verbatim>\<open>C\<close>; they stay unbound
      (\<open>None\<close>) for a formulation that is neither \<^verbatim>\<open>'EB'\<close> nor \<^verbatim>\<open>'HJ'\<close>\<close>
  "bSrc_grids pb =
     (let m = mesh pb in
      if formulation pb = ''EB'' then Some (gridEx m, gridEy m, gridEz m, edgeCurl m)
      else if formulation pb = ''HJ'' then Some (gridFx m, gridFy m, gridFz m, T (edgeCurl m))
      else None)"

definition bSrc :: "em_utils \<Rightarrow> source \<Rightarrow> tdem_problem \<Rightarrow> py_error + real list" where
  \<comment> \<open>\<^verbatim>\<open>_bSrc(self, prob)\<close>; \<^verbatim>\<open>_meshType is 'CYL'\<close> is read as equality of strings\<close>
  "bSrc U self pb =
     (if meshType (mesh pb) = ''CYL'' then
        (if \<not> isSymmetric (mesh pb)
         then Inl (NotImplementedError ''Non-symmetric cyl mesh not implemented yet!'')
         else (case bSrc_grids pb of
                 None \<Rightarrow> Inl UnboundLocalError
               | Some (gridX, gridY, gridZ, C) \<Rightarrow>
                   bind_res (srcFct U self gridY ''y'') (\<lambda>a. csr_dot C a)))
      else (case bSrc_grids pb of
              None \<Rightarrow> Inl UnboundLocalError
            | Some (gridX, gridY, gridZ, C) \<Rightarrow>
                bind_res (srcFct U self gridX ''x'') (\<lambda>ax.
                bind_res (srcFct U self gridY ''y'') (\<lambda>ay.
                bind_res (srcFct U self gridZ ''z'') (\<lambda>az.
                csr_dot C (ax @ ay @ az))))))"

definition at_first_step :: "source \<Rightarrow> tdem_problem \<Rightarrow> real \<Rightarrow> py_error + bool" where
  \<comment> \<open>\<^verbatim>\<open>self.waveform.hasInitialFields is True and time < prob.timeSteps[1]\<close>: the index is
      only read when the flag is set\<close>
  "at_first_step self pb time =
     (case waveform_get self of
        PyWaveform w \<Rightarrow>
          (if hasInitialFields w
           then (if length (timeSteps pb) < 2 then Inl IndexError
                 else Inr (time < timeSteps pb ! 1))
           else Inr False)
      | _ \<Rightarrow> Inl AttributeError)"

definition source_waveform_eval :: "source \<Rightarrow> real \<Rightarrow> py_error + real" where
  \<comment> \<open>\<^verbatim>\<open>self.waveform.eval(time)\<close>\<close>
  "source_waveform_eval self time =
     (case waveform_get self of
        PyWaveform w \<Rightarrow> waveform_eval w time
      | _ \<Rightarrow> Inl AttributeError)"

definition times_scalar :: "real list \<Rightarrow> real \<Rightarrow> real list" where
  \<comment> \<open>a vector times a number\<close>
  "times_scalar v a = map (\<lambda>x. x * a) v"

definition h_of :: "source \<Rightarrow> real list \<Rightarrow> py_error + real list" where
  \<comment> \<open>\<^verbatim>\<open>1./self.mu * b\<close>\<close>
  "h_of self b = (if mu self = 0 then Inl ZeroDivisionError else Inr (scal (1 / mu self) b))"

definition s_e :: "em_utils \<Rightarrow> source \<Rightarrow> tdem_problem \<Rightarrow> real \<Rightarrow> py_error + term_val" where
  \<comment> \<open>\<^verbatim>\<open>MagDipole.s_e(self, prob, time)\<close>, inherited by \<^verbatim>\<open>CircularLoop\<close>. A path that ends
      without a \<^verbatim>\<open>return\<close> returns \<^verbatim>\<open>None\<close>.\<close>
  "s_e U self pb time =
     (let C = edgeCurl (mesh pb) in
      bind_res (bSrc U self pb) (\<lambda>b.
      if formulation pb = ''EB'' then
        bind_res (at_first_step self pb time) (\<lambda>first.
        if first then
          (if fieldType pb = ''b'' then Inr Zero
           else if fieldType pb = ''e'' then
             bind_res (csr_dot (MfMui pb) b) (\<lambda>x.
             bind_res (csr_dot (T C) x) (\<lambda>y. Inr (Vec y)))
           else Inr NoneReturned)
        else
          bind_res (csr_dot (MfMui pb) b) (\<lambda>x.
          bind_res (csr_dot (T C) x) (\<lambda>y.
          bind_res (source_waveform_eval self time) (\<lambda>a. Inr (Vec (times_scalar y a))))))
      else if formulation pb = ''HJ'' then
        bind_res (h_of self b) (\<lambda>h.
        bind_res (at_first_step self pb time) (\<lambda>first.
        if first then
          (if fieldType pb = ''h'' then Inr Zero
           else if fieldType pb = ''j'' then
             bind_res (csr_dot C h) (\<lambda>y. Inr (Vec y))
           else Inr NoneReturned)
        else
          bind_res (csr_dot C h) (\<lambda>y.
          bind_res (source_waveform_eval self time) (\<lambda>a. Inr (Vec (times_scalar y a))))))
      else Inr NoneReturned))"

text \<open>
  The two vectors the specification names, written out entry by entry, to compare with
  what \<open>s_e\<close> computes: \<open>C\<^sup>T (MfMui b)\<close> and \<open>C (b / mu)\<close>.
\<close>

definition spec_CT_MfMui_b :: "matrix \<Rightarrow> matrix \<Rightarrow> real list \<Rightarrow> real list" where
  "spec_CT_MfMui_b C M b =
     map (\<lambda>j. \<Sum>i<shape0 C. entry C i j * (\<Sum>k<shape1 M. entry M i k * b ! k)) [0..<shape1 C]"

definition spec_C_b_over_mu :: "matrix \<Rightarrow> real list \<Rightarrow> real \<Rightarrow> real list" where
  "spec_C_b_over_mu C b m = map (\<lambda>i. \<Sum>j<shape1 C. entry C i j * (b ! j / m)) [0..<shape0 C]"

subsection \<open>A small mesh\<close>

text \<open>
  Three edges (one in each direction) and two faces (in the x and y directions); the
  vector potential of the example is the moment at every location.
\<close>

definition ex_utils :: em_utils where
  "ex_utils = \<lparr>MagneticDipoleVectorPotential = (\<lambda>src obs c m0 mom. map (\<lambda>p. mom) obs),
                MagneticLoopVectorPotential = (\<lambda>src obs c m0 rad. map (\<lambda>p. rad) obs)\<rparr>"

definition ex_mesh :: mesh where
  "ex_mesh = \<lparr>gridEx = [[0, 0, 0]], gridEy = [[0, 0, 0]], gridEz = [[0, 0, 0]],
              gridFx = [[0, 0, 0]], gridFy = [[0, 0, 0]], gridFz = [],
              edgeCurl = \<lparr>shape0 = 2, shape1 = 3, entry = (\<lambda>i j. real (i + j + 1))\<rparr>,
              meshType = ''TENSOR'', isSymmetric = False\<rparr>"

definition ex_tdem :: "string \<Rightarrow> string \<Rightarrow> tdem_problem" where
  "ex_tdem fm ft = \<lparr>mesh = ex_mesh, formulation = fm, fieldType = ft,
                    MfMui = sdiag [1 / 2, 1 / 3], timeSteps = [1, 1]\<rparr>"

definition ex_dipole :: source where
  \<comment> \<open>\<^verbatim>\<open>MagDipole([])\<close> after its constructor: the default step-off waveform is stored\<close>
  "ex_dipole = (new_source MagDipole)\<lparr>waveform_priv := Some (PyWaveform default_waveform)\<rparr>"

definition ex_dipole_raw :: source where
  \<comment> \<open>\<^verbatim>\<open>MagDipole([], waveform=RawWaveform(waveFct=lambda t: 2*t))\<close>\<close>
  "ex_dipole_raw = (new_source MagDipole)\<lparr>waveform_priv := Some (PyWaveform raw_ramp)\<rparr>"

section \<open>Facts about the linear algebra\<close>

lemma bind_res_Inl [simp]: "bind_res (Inl e) k = Inl e"
  by (simp add: bind_res_def)

lemma bind_res_Inr [simp]: "bind_res (Inr x) k = k x"
  by (simp add: bind_res_def)

lemma W_get_cached: "W_get dm = Inr (W, dm') \<Longrightarrow> W_get dm' = Inr (W, dm')"
  by (auto simp: W_get_def bind_res_def split: option.splits sum.splits)

lemma W_get_fields:
  "W_get dm = Inr (W, dm') \<Longrightarrow>
     survey dm' = survey dm \<and> prob dm' = prob dm \<and> scale dm' = scale dm \<and>
     std dm' = std dm \<and> eps dm' = eps dm \<and> W_cache dm' = Some W"
  by (auto simp: W_get_def bind_res_def split: option.splits sum.splits)

lemma da_dot_self: "da_dot v v = Inr (\<Sum>i<length v. (v ! i)\<^sup>2)"
proof -
  have "sum_list (map (\<lambda>(a, b). a * b) (zip v v)) = sum_list (map (\<lambda>x. x\<^sup>2) v)"
    by (induction v) (simp_all add: power2_eq_square)
  also have "\<dots> = (\<Sum>i<length v. (v ! i)\<^sup>2)"
    by (simp add: sum_list_sum_nth atLeast0LessThan)
  finally show ?thesis by (simp add: da_dot_def)
qed

lemma row_times_sum: "row_times A x i = (\<Sum>j<shape1 A. entry A i j * x ! j)"
  by (simp add: row_times_def sum_list_sum_nth atLeast0LessThan
      interv_sum_list_conv_sum_set_nat)

lemma row_times_sdiag:
  assumes "length x = length d" "i < length d"
  shows "row_times (sdiag d) x i = d ! i * x ! i"
proof -
  have "row_times (sdiag d) x i = (\<Sum>j<length d. (if i = j then d ! i * x ! j else 0))"
    using assms by (simp add: row_times_sum sdiag_def if_distrib [of "\<lambda>a. a * _"] cong: if_cong)
  also have "\<dots> = d ! i * x ! i"
    using assms by simp
  finally show ?thesis .
qed

lemma csr_dot_ok:
  "length x = shape1 A \<Longrightarrow> csr_dot A x = Inr (map (row_times A x) [0..<shape0 A])"
  by (simp add: csr_dot_def)

lemma the_fields_cases:
  "fo = Some f \<or> (fo = None \<and> prob_fields (prob dm) m = f) \<Longrightarrow> the_fields dm m fo = f"
  by (auto simp: the_fields_def)

lemma call_weighted:
  assumes W: "W_get dm = Inr (W, dm')"
    and f: "fo = Some f \<or> (fo = None \<and> prob_fields (prob dm) m = f)"
    and len: "length (residual (survey dm) m f) = shape1 W"
  shows "call dm m fo
       = Inr (1 / 2 * (\<Sum>i<shape0 W. (row_times W (residual (survey dm) m f) i)\<^sup>2), dm')"
proof -
  let ?r = "residual (survey dm) m f"
  let ?Wr = "map (row_times W ?r) [0..<shape0 W]"
  have same: "survey dm' = survey dm" "prob dm' = prob dm"
    using W_get_fields [OF W] by simp_all
  have dot: "csr_dot W ?r = Inr ?Wr"
    using len by (simp add: csr_dot_ok)
  have "call dm m fo = Inr (1 / 2 * (\<Sum>i<shape0 W. (?Wr ! i)\<^sup>2), dm')"
    by (simp add: call_def Let_def the_fields_cases [OF f] W W_get_cached [OF W] same dot
        from_delayed_def da_dot_self)
  then show ?thesis by simp
qed

lemma None_is_computed_fields:
  "call dm m None = call dm m (Some (prob_fields (prob dm) m))"
  "deriv dm m None = deriv dm m (Some (prob_fields (prob dm) m))"
  "deriv2 dm m v None = deriv2 dm m v (Some (prob_fields (prob dm) m))"
  by (simp_all add: call_def deriv_def deriv2_def the_fields_def)

section \<open>The misfit value, its gradient and the Gauss-Newton product\<close>

text \<open>
  C1. For a model \<open>m\<close> and the fields object \<open>f\<close> that is passed, with
  \<open>r = survey.residual(m, f)\<close> and \<open>W\<close> the weighting matrix the property gives,
  \<^verbatim>\<open>__call__(m, f)\<close> returns \<open>0.5 * (W r) \<cdot> (W r)\<close>, which is half the sum of the squares of
  the entries \<open>(W r)\<^sub>i = \<Sum>j. W\<^sub>i\<^sub>j r\<^sub>j\<close>; for a diagonal \<open>W = sdiag d\<close> (whatever the sign of
  the entries) it is \<open>0.5 * \<Sum>i. (d\<^sub>i r\<^sub>i)\<^sup>2\<close>. The instance returned has \<open>W\<close> cached. Without
  a fields object the call is the one with the fields \<open>prob.fields(m)\<close>.
\<close>

theorem call_half_weighted_squares:
  assumes W: "W_get dm = Inr (W, dm')"
    and r: "r = residual (survey dm) m f"
    and len: "length r = shape1 W"
  shows "call dm m (Some f)
           = Inr (1 / 2 * (\<Sum>i<shape0 W. (\<Sum>j<shape1 W. entry W i j * r ! j)\<^sup>2), dm')
       \<and> (\<forall>d. W = sdiag d \<longrightarrow>
            call dm m (Some f) = Inr (1 / 2 * (\<Sum>i<length d. (d ! i * r ! i)\<^sup>2), dm'))
       \<and> call dm m None = call dm m (Some (prob_fields (prob dm) m))"
proof -
  have val: "call dm m (Some f) = Inr (1 / 2 * (\<Sum>i<shape0 W. (row_times W r i)\<^sup>2), dm')"
    using call_weighted [OF W, of "Some f" f m] len r by simp
  have general: "call dm m (Some f)
      = Inr (1 / 2 * (\<Sum>i<shape0 W. (\<Sum>j<shape1 W. entry W i j * r ! j)\<^sup>2), dm')"
    using val by (simp add: row_times_sum)
  have diag: "call dm m (Some f) = Inr (1 / 2 * (\<Sum>i<length d. (d ! i * r ! i)\<^sup>2), dm')"
    if d: "W = sdiag d" for d
  proof -
    have ld: "length r = length d" "shape0 W = length d"
      using len d by (simp_all add: sdiag_def)
    have "(\<Sum>i<shape0 W. (row_times W r i)\<^sup>2) = (\<Sum>i<length d. (d ! i * r ! i)\<^sup>2)"
      unfolding ld(2) by (rule sum.cong) (simp_all add: d row_times_sdiag ld(1))
    with val show ?thesis by simp
  qed
  from general diag None_is_computed_fields(1) [of dm m] show ?thesis by blast
qed

theorem call_half_weighted_squares_witness:
  "call ex_dm [1] (Some 5) = Inr (170, ex_dm) \<and> call ex_dm [1] None = Inr (26, ex_dm)"
proof -
  have W: "W_get ex_dm = Inr (sdiag [2, 3], ex_dm)"
    by (simp add: W_get_def ex_dm_def)
  have len: "length [a, b :: real] = shape1 (sdiag [2, 3])" for a b
    by (simp add: sdiag_def)
  have r5: "[2, 6] = residual (survey ex_dm) [1] 5"
    by (simp add: ex_dm_def ex_survey_def)
  have r1: "[- 2, - 2] = residual (survey ex_dm) [1] 1"
    by (simp add: ex_dm_def ex_survey_def)
  have f: "prob_fields (prob ex_dm) [1] = 1"
    by (simp add: ex_dm_def ex_prob_def)
  have "call ex_dm [1] (Some 5)
      = Inr (1 / 2 * (\<Sum>i<length [2, 3 :: real]. ([2, 3] ! i * [2, 6] ! i)\<^sup>2), ex_dm)"
    using call_half_weighted_squares [OF W r5 len] by blast
  moreover have "call ex_dm [1] (Some 1)
      = Inr (1 / 2 * (\<Sum>i<length [2, 3 :: real]. ([2, 3] ! i * [- 2, - 2] ! i)\<^sup>2), ex_dm)"
    using call_half_weighted_squares [OF W r1 len] by blast
  moreover have "call ex_dm [1] None = call ex_dm [1] (Some 1)"
    using call_half_weighted_squares [OF W r5 len, THEN conjunct2, THEN conjunct2] f by simp
  ultimately show ?thesis
    by (simp add: lessThan_Suc numeral_2_eq_2)
qed

lemma row_times_T: "row_times (T W) y j = (\<Sum>i<shape0 W. entry W i j * y ! i)"
  by (simp add: row_times_sum T_def)

lemma csr_dot_T_scal:
  assumes "length x = shape1 W"
  shows "csr_dot (T W) (scal s (map (row_times W x) [0..<shape0 W]))
       = Inr (map (\<lambda>j. \<Sum>i<shape0 W. entry W i j * (s * (\<Sum>k<shape1 W. entry W i k * x ! k)))
               [0..<shape1 W])"
proof -
  let ?y = "scal s (map (row_times W x) [0..<shape0 W])"
  have "length ?y = shape1 (T W)"
    by (simp add: scal_def T_def)
  then have "csr_dot (T W) ?y = Inr (map (row_times (T W) ?y) [0..<shape0 (T W)])"
    by (rule csr_dot_ok)
  moreover have "row_times (T W) ?y j
      = (\<Sum>i<shape0 W. entry W i j * (s * (\<Sum>k<shape1 W. entry W i k * x ! k)))" for j
    unfolding row_times_T by (rule sum.cong) (simp_all add: scal_def row_times_sum)
  ultimately show ?thesis
    by (simp add: T_def)
qed

text \<open>
  C2. For a model \<open>m\<close> and the fields object \<open>f\<close> that is passed, with
  \<open>r = survey.residual(m, f)\<close> and \<open>W\<close> the weighting matrix, \<^verbatim>\<open>deriv(m, f)\<close> returns
  \<open>Jtvec(m, w, f)\<close> for the vector \<open>w = W\<^sup>T (scale (W r))\<close>, that is
  \<open>w\<^sub>j = \<Sum>i. W\<^sub>i\<^sub>j (scale \<Sum>k. W\<^sub>i\<^sub>k r\<^sub>k)\<close>; with \<open>scale = 1\<close> the vector is \<open>W\<^sup>T W r\<close>, so the
  result is the collaborator's transpose-Jacobian product of \<open>W\<^sup>T W r\<close>. Without a fields
  object the call is the one with the fields \<open>prob.fields(m)\<close>.
\<close>

theorem deriv_Jtvec_weighted_residual:
  assumes W: "W_get dm = Inr (W, dm')"
    and r: "r = residual (survey dm) m f"
    and len: "length r = shape1 W"
  shows "deriv dm m (Some f) =
           Inr (Jtvec (prob dm) m
                  (map (\<lambda>j. \<Sum>i<shape0 W. entry W i j * (scale dm * (\<Sum>k<shape1 W. entry W i k * r ! k)))
                     [0..<shape1 W])
                  f, dm')
       \<and> (scale dm = 1 \<longrightarrow>
            deriv dm m (Some f) =
              Inr (Jtvec (prob dm) m
                     (map (\<lambda>j. \<Sum>i<shape0 W. entry W i j * (\<Sum>k<shape1 W. entry W i k * r ! k))
                        [0..<shape1 W])
                     f, dm'))
       \<and> deriv dm m None = deriv dm m (Some (prob_fields (prob dm) m))"
proof -
  have same: "survey dm' = survey dm" "prob dm' = prob dm" "scale dm' = scale dm"
    using W_get_fields [OF W] by simp_all
  let ?w = "map (\<lambda>j. \<Sum>i<shape0 W. entry W i j * (scale dm * (\<Sum>k<shape1 W. entry W i k * r ! k)))
              [0..<shape1 W]"
  have dot: "csr_dot W (residual (survey dm) m f) = Inr (map (row_times W r) [0..<shape0 W])"
    using len r by (simp add: csr_dot_ok)
  have dotT: "csr_dot (T W) (scal (scale dm) (map (row_times W r) [0..<shape0 W])) = Inr ?w"
    by (rule csr_dot_T_scal [OF len])
  have "deriv dm m (Some f) = Inr (Jtvec (prob dm) m ?w f, dm')"
    by (simp add: deriv_def Let_def the_fields_def W W_get_cached [OF W] same dot dotT
        from_delayed_def)
  with None_is_computed_fields(2) [of dm m] show ?thesis by simp
qed

theorem deriv_Jtvec_weighted_residual_witness:
  "deriv ex_dm [1] (Some 5) = Inr ([580], ex_dm) \<and> deriv ex_dm [1] None = Inr ([- 44], ex_dm)"
proof -
  have W: "W_get ex_dm = Inr (sdiag [2, 3], ex_dm)"
    by (simp add: W_get_def ex_dm_def)
  have len: "length [a, b :: real] = shape1 (sdiag [2, 3])" for a b
    by (simp add: sdiag_def)
  have r5: "[2, 6] = residual (survey ex_dm) [1] 5"
    by (simp add: ex_dm_def ex_survey_def)
  have r1: "[- 2, - 2] = residual (survey ex_dm) [1] 1"
    by (simp add: ex_dm_def ex_survey_def)
  have f: "prob_fields (prob ex_dm) [1] = 1"
    by (simp add: ex_dm_def ex_prob_def)
  have "deriv ex_dm [1] (Some 5) = Inr ([580], ex_dm)"
    using deriv_Jtvec_weighted_residual [OF W r5 len]
    by (simp add: sdiag_def ex_dm_def ex_prob_def lessThan_Suc numeral_2_eq_2)
  moreover have "deriv ex_dm [1] (Some 1) = Inr ([- 44], ex_dm)"
    using deriv_Jtvec_weighted_residual [OF W r1 len]
    by (simp add: sdiag_def ex_dm_def ex_prob_def lessThan_Suc numeral_2_eq_2)
  moreover have "deriv ex_dm [1] None = deriv ex_dm [1] (Some 1)"
    using deriv_Jtvec_weighted_residual [OF W r5 len] f by simp
  ultimately show ?thesis by simp
qed

text \<open>
  C3. For a model \<open>m\<close>, a direction \<open>v\<close> and the fields object \<open>f\<close> that is passed, with
  \<open>W\<close> the weighting matrix and \<open>Jv = Jvec_approx(m, v, f)\<close>, \<^verbatim>\<open>deriv2(m, v, f)\<close> returns
  \<open>Jtvec_approx(m, w, f)\<close> for the vector \<open>w = W\<^sup>T (W Jv)\<close>, that is
  \<open>w\<^sub>j = \<Sum>i. W\<^sub>i\<^sub>j (\<Sum>k. W\<^sub>i\<^sub>k Jv\<^sub>k)\<close>: only the two products of the collaborator are used,
  never a Jacobian matrix. Without a fields object the call is the one with the fields
  \<open>prob.fields(m)\<close>.
\<close>

theorem deriv2_Gauss_Newton_product:
  assumes W: "W_get dm = Inr (W, dm')"
    and Jv: "Jv = Jvec_approx (prob dm) m v f"
    and len: "length Jv = shape1 W"
  shows "deriv2 dm m v (Some f) =
           Inr (Jtvec_approx (prob dm) m
                  (map (\<lambda>j. \<Sum>i<shape0 W. entry W i j * (\<Sum>k<shape1 W. entry W i k * Jv ! k))
                     [0..<shape1 W])
                  f, dm')
       \<and> deriv2 dm m v None = deriv2 dm m v (Some (prob_fields (prob dm) m))"
proof -
  have same: "survey dm' = survey dm" "prob dm' = prob dm"
    using W_get_fields [OF W] by simp_all
  let ?w = "map (\<lambda>j. \<Sum>i<shape0 W. entry W i j * (\<Sum>k<shape1 W. entry W i k * Jv ! k))
              [0..<shape1 W]"
  have dot: "csr_dot W (Jvec_approx (prob dm) m v f) = Inr (map (row_times W Jv) [0..<shape0 W])"
    using len Jv by (simp add: csr_dot_ok)
  have unscaled: "scal 1 y = y" for y
    by (simp add: scal_def)
  have dotT: "csr_dot (T W) (map (row_times W Jv) [0..<shape0 W]) = Inr ?w"
    using csr_dot_T_scal [OF len, of 1] by (simp add: unscaled)
  have "deriv2 dm m v (Some f) = Inr (Jtvec_approx (prob dm) m ?w f, dm')"
    by (simp add: deriv2_def Let_def the_fields_def W W_get_cached [OF W] same dot dotT
        from_delayed_def)
  with None_is_computed_fields(3) [of dm m v] show ?thesis by simp
qed

theorem deriv2_Gauss_Newton_product_witness:
  "deriv2 ex_dm [1] [1] (Some 5) = Inr ([1000], ex_dm)
   \<and> deriv2 ex_dm [1] [1] None = Inr ([40], ex_dm)"
proof -
  have W: "W_get ex_dm = Inr (sdiag [2, 3], ex_dm)"
    by (simp add: W_get_def ex_dm_def)
  have len: "length [a, b :: real] = shape1 (sdiag [2, 3])" for a b
    by (simp add: sdiag_def)
  have Jv5: "[5, 10] = Jvec_approx (prob ex_dm) [1] [1] 5"
    by (simp add: ex_dm_def ex_prob_def)
  have Jv1: "[1, 2] = Jvec_approx (prob ex_dm) [1] [1] 1"
    by (simp add: ex_dm_def ex_prob_def)
  have f: "prob_fields (prob ex_dm) [1] = 1"
    by (simp add: ex_dm_def ex_prob_def)
  have "deriv2 ex_dm [1] [1] (Some 5) = Inr ([1000], ex_dm)"
    using deriv2_Gauss_Newton_product [OF W Jv5 len]
    by (simp add: sdiag_def ex_dm_def ex_prob_def lessThan_Suc numeral_2_eq_2)
  moreover have "deriv2 ex_dm [1] [1] (Some 1) = Inr ([40], ex_dm)"
    using deriv2_Gauss_Newton_product [OF W Jv1 len]
    by (simp add: sdiag_def ex_dm_def ex_prob_def lessThan_Suc numeral_2_eq_2)
  moreover have "deriv2 ex_dm [1] [1] None = deriv2 ex_dm [1] [1] (Some 1)"
    using deriv2_Gauss_Newton_product [OF W Jv5 len] f by simp
  ultimately show ?thesis by simp
qed

section \<open>Waveforms\<close>

text \<open>
  C9. For every time, \<^verbatim>\<open>eval\<close> of a \<^verbatim>\<open>TriangularWaveform\<close> instance raises
  \<^verbatim>\<open>NotImplementedError\<close> with the message "TriangularWaveform has not been implemented,
  you should write it!", which begins with the name of the class; it returns no amplitude.
\<close>

theorem TriangularWaveform_eval_not_implemented:
  "cls w = TriangularWaveform \<Longrightarrow>
     waveform_eval w time =
       Inl (NotImplementedError ''TriangularWaveform has not been implemented, you should write it!'')
     \<and> take 18 triangular_message = ''TriangularWaveform''
     \<and> (\<forall>a. waveform_eval w time \<noteq> Inr a)"
  by (simp add: waveform_eval_def triangular_message_def)

theorem TriangularWaveform_eval_not_implemented_witness:
  "cls triangular_example = TriangularWaveform
   \<and> waveform_eval triangular_example 3 =
       Inl (NotImplementedError ''TriangularWaveform has not been implemented, you should write it!'')"
  using TriangularWaveform_eval_not_implemented [of triangular_example 3]
  by (simp add: triangular_example_def)

text \<open>
  C10. For every argument \<open>offTime\<close>, of any type, the constructor of
  \<^verbatim>\<open>TriangularWaveform\<close> raises \<^verbatim>\<open>TypeError\<close>: it passes \<open>offTime\<close> by position to
  \<^verbatim>\<open>BaseWaveform.__init__\<close>, which takes keyword arguments only. So the constructor
  returns no instance.
\<close>

theorem TriangularWaveform_init_TypeError:
  "TriangularWaveform_init offTime = Inl TypeError
   \<and> (\<forall>w. TriangularWaveform_init offTime \<noteq> Inr w)"
  by (simp add: TriangularWaveform_init_def BaseWaveform_init_def)

section \<open>Assigning a waveform to a source\<close>

lemma ex_dipole_constructed: "BaseTDEMSrc_init (new_source MagDipole) None = Inr ex_dipole"
  by (simp add: BaseTDEMSrc_init_def waveform_set_def waveform_get_def new_source_def
      assertMatchesPair_def isinstance_wf_def ex_dipole_def)

lemma first_assignment_checks_pair:
  assumes "src_cls s \<noteq> LineCurrent" "waveform_get s = PyNone"
  shows "waveform_set s (PyWaveform w) =
           (if isinstance_wf w (waveformPair s) then Inr (s\<lparr>waveform_priv := Some (PyWaveform w)\<rparr>)
            else Inl (AssertionError pair_message))"
  using assms by (simp add: waveform_set_def assertMatchesPair_def)

text \<open>
  C7 (what the code does). On a source of a class that has the \<^verbatim>\<open>waveform\<close> property
  (every class but \<^verbatim>\<open>LineCurrent\<close>) and that already holds a waveform, an assignment to
  \<^verbatim>\<open>waveform\<close> evaluates \<^verbatim>\<open>self.StepOffWaveform(val)\<close>; no class of the file defines an
  attribute \<^verbatim>\<open>StepOffWaveform\<close>, so the assignment raises \<^verbatim>\<open>AttributeError\<close> and the
  stored waveform stays: nothing is wrapped.
\<close>

theorem waveform_reassignment_raises:
  "src_cls s \<noteq> LineCurrent \<Longrightarrow> waveform_get s \<noteq> PyNone \<Longrightarrow> StepOffWaveform_attr s = None \<Longrightarrow>
     waveform_set s val = Inl AttributeError"
  by (simp add: waveform_set_def)

theorem waveform_reassignment_raises_witness:
  "BaseTDEMSrc_init (new_source MagDipole) None = Inr ex_dipole
   \<and> waveform_get ex_dipole = PyWaveform default_waveform
   \<and> waveform_set ex_dipole (PyWaveform raw_ramp) = Inl AttributeError"
proof -
  have c: "src_cls ex_dipole \<noteq> LineCurrent"
    by (simp add: ex_dipole_def new_source_def)
  have w: "waveform_get ex_dipole = PyWaveform default_waveform"
    by (simp add: ex_dipole_def new_source_def waveform_get_def)
  then have g: "waveform_get ex_dipole \<noteq> PyNone"
    by simp
  have a: "StepOffWaveform_attr ex_dipole = None"
    by (simp add: ex_dipole_def new_source_def)
  show ?thesis
    using waveform_reassignment_raises [OF c g a, of "PyWaveform raw_ramp"] w ex_dipole_constructed
    by simp
qed

text \<open>
  C8 (what the code does). On a \<^verbatim>\<open>LineCurrent\<close> the attribute \<^verbatim>\<open>waveform\<close> is plain: an
  assignment stores any value, also a waveform that is no instance of \<^verbatim>\<open>waveformPair\<close>
  and a value that is no waveform, and raises nothing; the same first assignment on a
  source of the other classes raises the \<^verbatim>\<open>AssertionError\<close> of the pair check.
\<close>

theorem LineCurrent_waveform_unchecked:
  "src_cls s = LineCurrent \<Longrightarrow>
     waveform_set s val = Inr (s\<lparr>waveform_attr := Some val\<rparr>)
     \<and> waveform_get (s\<lparr>waveform_attr := Some val\<rparr>) = val"
  by (simp add: waveform_set_def waveform_get_def)

theorem LineCurrent_waveform_unchecked_witness:
  "\<not> isinstance_wf raw_ramp StepOffWaveform
   \<and> waveform_set ((new_source LineCurrent)\<lparr>waveformPair := StepOffWaveform\<rparr>) (PyWaveform raw_ramp)
       = Inr ((new_source LineCurrent)\<lparr>waveformPair := StepOffWaveform,
                                        waveform_attr := Some (PyWaveform raw_ramp)\<rparr>)
   \<and> waveform_set ((new_source MagDipole)\<lparr>waveformPair := StepOffWaveform\<rparr>) (PyWaveform raw_ramp)
       = Inl (AssertionError pair_message)"
proof -
  have c: "src_cls ((new_source LineCurrent)\<lparr>waveformPair := StepOffWaveform\<rparr>) = LineCurrent"
    by (simp add: new_source_def)
  have m: "waveform_set ((new_source MagDipole)\<lparr>waveformPair := StepOffWaveform\<rparr>) (PyWaveform raw_ramp)
       = Inl (AssertionError pair_message)"
    by (simp add: first_assignment_checks_pair new_source_def waveform_get_def
        isinstance_wf_def raw_ramp_def)
  show ?thesis
    using LineCurrent_waveform_unchecked [OF c, of "PyWaveform raw_ramp"] m
    by (simp add: isinstance_wf_def raw_ramp_def)
qed

section \<open>The electric forcing term of the dipole and loop sources\<close>

lemma at_first_step_waveform:
  "waveform_get self = PyWaveform w \<Longrightarrow>
     at_first_step self pb time =
       (if hasInitialFields w
        then (if length (timeSteps pb) < 2 then Inl IndexError else Inr (time < timeSteps pb ! 1))
        else Inr False)"
  by (simp add: at_first_step_def)

lemma EB_product:
  assumes "length b = shape1 M" "shape0 M = shape0 C"
  shows "bind_res (csr_dot M b) (\<lambda>x. bind_res (csr_dot (T C) x) k) = k (spec_CT_MfMui_b C M b)"
proof -
  let ?x = "map (row_times M b) [0..<shape0 M]"
  have "length ?x = shape1 (T C)"
    using assms by (simp add: T_def)
  then have "csr_dot (T C) ?x = Inr (map (row_times (T C) ?x) [0..<shape0 (T C)])"
    by (rule csr_dot_ok)
  moreover have "row_times (T C) ?x j
      = (\<Sum>i<shape0 C. entry C i j * (\<Sum>k<shape1 M. entry M i k * b ! k))" for j
    unfolding row_times_T by (rule sum.cong) (simp_all add: row_times_sum assms)
  ultimately have "csr_dot (T C) ?x = Inr (spec_CT_MfMui_b C M b)"
    by (simp add: T_def spec_CT_MfMui_b_def)
  then show ?thesis
    using assms by (simp add: csr_dot_ok)
qed

lemma HJ_product:
  assumes "length b = shape1 C"
  shows "csr_dot C (scal (1 / m) b) = Inr (spec_C_b_over_mu C b m)"
proof -
  have "row_times C (scal (1 / m) b) i = (\<Sum>j<shape1 C. entry C i j * (b ! j / m))" for i
    unfolding row_times_sum by (rule sum.cong) (simp_all add: scal_def assms [symmetric])
  then show ?thesis
    using assms by (simp add: csr_dot_def scal_def spec_C_b_over_mu_def)
qed

text \<open>
  C4, as the code has it. Let the source hold the waveform \<open>w\<close> and let \<^verbatim>\<open>_bSrc(prob)\<close>
  return \<open>b\<close> (so the source is a \<^verbatim>\<open>MagDipole\<close> or a \<^verbatim>\<open>CircularLoop\<close> and the formulation
  is \<^verbatim>\<open>'EB'\<close> or \<^verbatim>\<open>'HJ'\<close>). Say the call is at the first step when
  \<open>hasInitialFields\<close> holds, there are at least two time steps and \<open>time < timeSteps[1]\<close>.
  Under \<^verbatim>\<open>'EB'\<close> at the first step \<open>s_e\<close> returns \<open>Zero\<close> for the field type \<^verbatim>\<open>'b'\<close> and
  \<open>C\<^sup>T (MfMui b)\<close> for \<^verbatim>\<open>'e'\<close>; under \<^verbatim>\<open>'HJ'\<close> at the first step, with \<open>mu \<noteq> 0\<close>, it returns
  \<open>Zero\<close> for \<^verbatim>\<open>'h'\<close> and \<open>C (b / mu)\<close> for \<^verbatim>\<open>'j'\<close>; when \<open>hasInitialFields\<close> is false, or
  \<open>time \<ge> timeSteps[1]\<close>, and \<open>waveform.eval(time)\<close> returns \<open>a\<close>, it returns
  \<open>C\<^sup>T (MfMui b) a\<close> under \<^verbatim>\<open>'EB'\<close> and \<open>C (b / mu) a\<close> under \<^verbatim>\<open>'HJ'\<close>, whatever the field
  type. The products are taken where the dimensions agree.
\<close>

theorem s_e_by_formulation:
  assumes w: "waveform_get self = PyWaveform w"
    and b: "bSrc U self pb = Inr b"
  shows
    "(formulation pb = ''EB'' \<and> hasInitialFields w \<and> 2 \<le> length (timeSteps pb)
        \<and> time < timeSteps pb ! 1 \<and> fieldType pb = ''b''
      \<longrightarrow> s_e U self pb time = Inr Zero)
   \<and> (formulation pb = ''EB'' \<and> hasInitialFields w \<and> 2 \<le> length (timeSteps pb)
        \<and> time < timeSteps pb ! 1 \<and> fieldType pb = ''e''
        \<and> length b = shape1 (MfMui pb) \<and> shape0 (MfMui pb) = shape0 (edgeCurl (mesh pb))
      \<longrightarrow> s_e U self pb time = Inr (Vec (spec_CT_MfMui_b (edgeCurl (mesh pb)) (MfMui pb) b)))
   \<and> (formulation pb = ''HJ'' \<and> hasInitialFields w \<and> 2 \<le> length (timeSteps pb)
        \<and> time < timeSteps pb ! 1 \<and> fieldType pb = ''h'' \<and> mu self \<noteq> 0
      \<longrightarrow> s_e U self pb time = Inr Zero)
   \<and> (formulation pb = ''HJ'' \<and> hasInitialFields w \<and> 2 \<le> length (timeSteps pb)
        \<and> time < timeSteps pb ! 1 \<and> fieldType pb = ''j'' \<and> mu self \<noteq> 0
        \<and> length b = shape1 (edgeCurl (mesh pb))
      \<longrightarrow> s_e U self pb time = Inr (Vec (spec_C_b_over_mu (edgeCurl (mesh pb)) b (mu self))))
   \<and> (formulation pb = ''EB''
        \<and> (\<not> hasInitialFields w \<or> (2 \<le> length (timeSteps pb) \<and> \<not> time < timeSteps pb ! 1))
        \<and> length b = shape1 (MfMui pb) \<and> shape0 (MfMui pb) = shape0 (edgeCurl (mesh pb))
        \<and> waveform_eval w time = Inr a
      \<longrightarrow> s_e U self pb time
            = Inr (Vec (times_scalar (spec_CT_MfMui_b (edgeCurl (mesh pb)) (MfMui pb) b) a)))
   \<and> (formulation pb = ''HJ''
        \<and> (\<not> hasInitialFields w \<or> (2 \<le> length (timeSteps pb) \<and> \<not> time < timeSteps pb ! 1))
        \<and> mu self \<noteq> 0 \<and> length b = shape1 (edgeCurl (mesh pb))
        \<and> waveform_eval w time = Inr a
      \<longrightarrow> s_e U self pb time
            = Inr (Vec (times_scalar (spec_C_b_over_mu (edgeCurl (mesh pb)) b (mu self)) a)))"
proof -
  note first = at_first_step_waveform [OF w]
  have ev: "source_waveform_eval self time = waveform_eval w time"
    by (simp add: source_waveform_eval_def w)
  have EB_b: "s_e U self pb time = Inr Zero"
    if "formulation pb = ''EB''" "hasInitialFields w" "2 \<le> length (timeSteps pb)"
      "time < timeSteps pb ! 1" "fieldType pb = ''b''"
    using that by (simp add: s_e_def b first)
  have EB_e: "s_e U self pb time = Inr (Vec (spec_CT_MfMui_b (edgeCurl (mesh pb)) (MfMui pb) b))"
    if "formulation pb = ''EB''" "hasInitialFields w" "2 \<le> length (timeSteps pb)"
      "time < timeSteps pb ! 1" "fieldType pb = ''e''"
      "length b = shape1 (MfMui pb)" "shape0 (MfMui pb) = shape0 (edgeCurl (mesh pb))"
    using that by (simp add: s_e_def b first EB_product)
  have HJ_h: "s_e U self pb time = Inr Zero"
    if "formulation pb = ''HJ''" "hasInitialFields w" "2 \<le> length (timeSteps pb)"
      "time < timeSteps pb ! 1" "fieldType pb = ''h''" "mu self \<noteq> 0"
    using that by (simp add: s_e_def b first h_of_def)
  have HJ_j: "s_e U self pb time = Inr (Vec (spec_C_b_over_mu (edgeCurl (mesh pb)) b (mu self)))"
    if "formulation pb = ''HJ''" "hasInitialFields w" "2 \<le> length (timeSteps pb)"
      "time < timeSteps pb ! 1" "fieldType pb = ''j''" "mu self \<noteq> 0"
      "length b = shape1 (edgeCurl (mesh pb))"
    using that by (simp add: s_e_def b first h_of_def HJ_product)
  have EB_later: "s_e U self pb time
      = Inr (Vec (times_scalar (spec_CT_MfMui_b (edgeCurl (mesh pb)) (MfMui pb) b) a))"
    if "formulation pb = ''EB''"
      "\<not> hasInitialFields w \<or> (2 \<le> length (timeSteps pb) \<and> \<not> time < timeSteps pb ! 1)"
      "length b = shape1 (MfMui pb)" "shape0 (MfMui pb) = shape0 (edgeCurl (mesh pb))"
      "waveform_eval w time = Inr a"
    using that by (auto simp: s_e_def b first EB_product ev)
  have HJ_later: "s_e U self pb time
      = Inr (Vec (times_scalar (spec_C_b_over_mu (edgeCurl (mesh pb)) b (mu self)) a))"
    if "formulation pb = ''HJ''"
      "\<not> hasInitialFields w \<or> (2 \<le> length (timeSteps pb) \<and> \<not> time < timeSteps pb ! 1)"
      "mu self \<noteq> 0" "length b = shape1 (edgeCurl (mesh pb))"
      "waveform_eval w time = Inr a"
    using that by (auto simp: s_e_def b first h_of_def HJ_product ev)
  from EB_b EB_e HJ_h HJ_j EB_later HJ_later show ?thesis
    by blast
qed

lemma ex_tdem_sel:
  "formulation (ex_tdem fm ft) = fm" "fieldType (ex_tdem fm ft) = ft"
  "timeSteps (ex_tdem fm ft) = [1, 1]" "MfMui (ex_tdem fm ft) = sdiag [1 / 2, 1 / 3]"
  "mesh (ex_tdem fm ft) = ex_mesh"
  by (simp_all add: ex_tdem_def)

lemma ex_dipole_waveform:
  "waveform_get ex_dipole = PyWaveform default_waveform"
  "waveform_get ex_dipole_raw = PyWaveform raw_ramp"
  by (simp_all add: waveform_get_def ex_dipole_def ex_dipole_raw_def new_source_def)

lemma ex_bSrc:
  "bSrc ex_utils ex_dipole (ex_tdem ''EB'' ft) = Inr [6, 9]"
  "bSrc ex_utils ex_dipole (ex_tdem ''HJ'' ft) = Inr [3, 5, 7]"
  "bSrc ex_utils ex_dipole_raw (ex_tdem ''EB'' ft) = Inr [6, 9]"
  "bSrc ex_utils ex_dipole_raw (ex_tdem ''HJ'' ft) = Inr [3, 5, 7]"
  by (simp_all add: bSrc_def bSrc_grids_def srcFct_def csr_dot_def row_times_def T_def
      ex_tdem_def ex_mesh_def ex_dipole_def ex_dipole_raw_def ex_utils_def new_source_def upt_rec)

lemma ex_spec_vectors:
  "spec_CT_MfMui_b (edgeCurl ex_mesh) (sdiag [1 / 2, 1 / 3]) [6, 9] = [9, 15, 21]"
  "spec_C_b_over_mu (edgeCurl ex_mesh) [3, 5, 7] 1 = [34, 49]"
  by (simp_all add: spec_CT_MfMui_b_def spec_C_b_over_mu_def ex_mesh_def sdiag_def
      upt_rec lessThan_Suc numeral_2_eq_2 numeral_3_eq_3)

text \<open>
  C4 as stated fails: under \<^verbatim>\<open>'EB'\<close> at the first step, with a field type that is
  neither \<^verbatim>\<open>'b'\<close> nor \<^verbatim>\<open>'e'\<close>, \<open>s_e\<close> ends without a \<^verbatim>\<open>return\<close>: the result is \<^verbatim>\<open>None\<close>,
  neither a vector nor \<open>Zero\<close>.
\<close>

theorem s_e_unpaired_field_type_returns_None:
  "s_e ex_utils ex_dipole (ex_tdem ''EB'' ''j'') 0 = Inr NoneReturned"
  by (simp add: s_e_def ex_bSrc ex_tdem_sel at_first_step_def ex_dipole_waveform
      default_waveform_def)

theorem s_e_by_formulation_witness:
  "s_e ex_utils ex_dipole (ex_tdem ''EB'' ''b'') 0 = Inr Zero
   \<and> s_e ex_utils ex_dipole (ex_tdem ''EB'' ''e'') 0 = Inr (Vec [9, 15, 21])
   \<and> s_e ex_utils ex_dipole (ex_tdem ''HJ'' ''h'') 0 = Inr Zero
   \<and> s_e ex_utils ex_dipole (ex_tdem ''HJ'' ''j'') 0 = Inr (Vec [34, 49])
   \<and> s_e ex_utils ex_dipole_raw (ex_tdem ''EB'' ''b'') 3 = Inr (Vec [54, 90, 126])
   \<and> s_e ex_utils ex_dipole_raw (ex_tdem ''HJ'' ''j'') 3 = Inr (Vec [204, 294])"
proof -
  have ev: "waveform_eval raw_ramp 3 = Inr 6"
    by (simp add: waveform_eval_def raw_ramp_def)
  have m: "mu ex_dipole = 1" "mu ex_dipole_raw = 1"
    by (simp_all add: ex_dipole_def ex_dipole_raw_def new_source_def)
  have sh: "shape1 (sdiag [1 / 2, 1 / 3]) = 2" "shape0 (sdiag [1 / 2, 1 / 3]) = 2"
    "shape0 (edgeCurl ex_mesh) = 2" "shape1 (edgeCurl ex_mesh) = 3"
    by (simp_all add: sdiag_def ex_mesh_def)
  have fl: "hasInitialFields default_waveform" "\<not> hasInitialFields raw_ramp"
    by (simp_all add: default_waveform_def raw_ramp_def)
  note step = s_e_by_formulation [OF ex_dipole_waveform(1) ex_bSrc(1), of "''b''" 0 0]
    s_e_by_formulation [OF ex_dipole_waveform(1) ex_bSrc(1), of "''e''" 0 0]
    s_e_by_formulation [OF ex_dipole_waveform(1) ex_bSrc(2), of "''h''" 0 0]
    s_e_by_formulation [OF ex_dipole_waveform(1) ex_bSrc(2), of "''j''" 0 0]
    s_e_by_formulation [OF ex_dipole_waveform(2) ex_bSrc(3), of "''b''" 3 6]
    s_e_by_formulation [OF ex_dipole_waveform(2) ex_bSrc(4), of "''j''" 3 6]
  show ?thesis
    using step
    by (simp add: ex_tdem_sel ev m sh fl ex_spec_vectors times_scalar_def)
qed



section \<open>Assigning a weighting matrix of the wrong shape\<close>

lemma W_message_formatting:
  "py_format W_message [] [(''nD'', a), (''val0'', b), (''val1'', c)] = Inl IndexError"
  by (simp add: py_format_def W_message_def get_field_def is_digit_def nat_of_digits_def)

lemma W_set_right_shape:
  "(shape0 M, shape1 M) = (nD (survey dm), nD (survey dm)) \<Longrightarrow>
     W_set dm (Arr2 M) = Inr (dm\<lparr>W_cache := Some M\<rparr>)"
  by (simp add: W_set_def Let_def)

lemma W_set_vector:
  "length v = nD (survey dm) \<Longrightarrow> W_set dm (Arr1 v) = Inr (dm\<lparr>W_cache := Some (sdiag v)\<rparr>)"
  by (simp add: W_set_def Let_def sdiag_def)

text \<open>
  C6 (what the code does). Assigning to \<^verbatim>\<open>W\<close> a matrix whose shape is not \<open>(nD, nD)\<close>
  fails and leaves the instance as it was, but not with the message the \<^verbatim>\<open>assert\<close>
  means to give: the format string ends in \<^verbatim>\<open>val{1}\<close> where \<^verbatim>\<open>{val1}\<close> was meant, a
  positional field while \<^verbatim>\<open>format\<close> is given keyword arguments only, so computing the
  message raises \<^verbatim>\<open>IndexError\<close> and no message naming the shapes is produced.
\<close>

theorem W_set_wrong_shape_IndexError:
  "(shape0 M, shape1 M) \<noteq> (nD (survey dm), nD (survey dm)) \<Longrightarrow>
     W_set dm (Arr2 M) = Inl IndexError"
  by (simp add: W_set_def Let_def W_message_formatting)

theorem W_set_wrong_shape_IndexError_witness:
  "W_set ex_dm (Arr2 \<lparr>shape0 = 3, shape1 = 3, entry = (\<lambda>i j. 1)\<rparr>) = Inl IndexError
   \<and> nD (survey ex_dm) = 2"
  using W_set_wrong_shape_IndexError [of "\<lparr>shape0 = 3, shape1 = 3, entry = (\<lambda>i j. 1)\<rparr>" ex_dm]
  by (simp add: ex_dm_def ex_survey_def)


section \<open>The default weighting matrix\<close>

lemma default_W_built:
  assumes "W_cache dm = None" "0 \<notin> set (map (\<lambda>x. \<bar>x\<bar> * std dm + eps dm) (dobs (survey dm)))"
  shows "W_get dm =
           Inr (sdiag (map (\<lambda>x. 1 / (\<bar>x\<bar> * std dm + eps dm)) (dobs (survey dm))),
                dm\<lparr>W_cache := Some (sdiag (map (\<lambda>x. 1 / (\<bar>x\<bar> * std dm + eps dm)) (dobs (survey dm))))\<rparr>)"
  using assms by (simp add: W_get_def default_W_def Let_def comp_def)

lemma W_cached_returned: "W_get (dm\<lparr>W_cache := Some W\<rparr>) = Inr (W, dm\<lparr>W_cache := Some W\<rparr>)"
  by (simp add: W_get_def)

lemma init_defaults:
  assumes "ispaired sv" "survey_std sv = None" "survey_eps sv = None"
  shows "l2_DataMisfit_init sv None None =
           Inr (\<lparr>survey = sv, prob = survey_prob sv, std = 5 / 100,
                 eps = norm2 (dobs sv) * (1 / 100000), W_cache = None, scale = 1\<rparr>,
                [std_notice, eps_notice])"
  using assms by (simp add: l2_DataMisfit_init_def init_std_def init_eps_def eps_factor_def)

lemma sqrt5_bounds: "2236 / 1000 < sqrt 5" "sqrt 5 < 22361 / 10000"
  by (rule real_less_rsqrt, simp add: power2_eq_square)
     (rule real_less_lsqrt, simp_all add: power2_eq_square)

lemma scenario_init:
  "l2_DataMisfit_init scenario_survey None None = Inr (scenario_dm, [std_notice, eps_notice])"
proof -
  have "norm2 (dobs scenario_survey) = sqrt 5"
    by (simp add: norm2_def scenario_survey_def)
  then show ?thesis
    using init_defaults [of scenario_survey]
    by (simp add: scenario_survey_def scenario_dm_def)
qed

lemma scenario_W_get:
  "W_get scenario_dm = Inr (scenario_W, scenario_dm\<lparr>W_cache := Some scenario_W\<rparr>)"
proof -
  have "0 \<le> sqrt 5"
    by simp
  then have pos: "1 / 20 + sqrt 5 / 100000 \<noteq> 0" "1 / 10 + sqrt 5 / 100000 \<noteq> 0"
    by linarith+
  have "0 \<notin> set (map (\<lambda>x. \<bar>x\<bar> * std scenario_dm + eps scenario_dm) (dobs (survey scenario_dm)))"
    using pos by (simp add: scenario_dm_def scenario_survey_def)
  moreover have "W_cache scenario_dm = None"
    by (simp add: scenario_dm_def)
  ultimately show ?thesis
    using default_W_built [of scenario_dm]
    by (simp add: scenario_dm_def scenario_survey_def scenario_W_def)
qed

lemma scenario_call:
  "call scenario_dm m None = Inr (scenario_value, scenario_dm\<lparr>W_cache := Some scenario_W\<rparr>)"
proof -
  let ?f = "prob_fields (prob scenario_dm) m"
  have r: "residual (survey scenario_dm) m ?f = [1 / 10, - 2 / 10]"
    by (simp add: scenario_dm_def scenario_survey_def)
  have len: "length (residual (survey scenario_dm) m ?f) = shape1 scenario_W"
    by (simp add: r scenario_W_def sdiag_def)
  have rows: "row_times scenario_W [1 / 10, - 2 / 10] 0 = 1 / (1 * (5 / 100) + sqrt 5 / 100000) * (1 / 10)"
    "row_times scenario_W [1 / 10, - 2 / 10] 1 = 1 / (2 * (5 / 100) + sqrt 5 / 100000) * (- 2 / 10)"
    unfolding scenario_W_def by (simp_all add: row_times_sdiag)
  have "shape0 scenario_W = 2"
    by (simp add: scenario_W_def sdiag_def)
  then have "(\<Sum>i<shape0 scenario_W. (row_times scenario_W [1 / 10, - 2 / 10] i)\<^sup>2) = 2 * scenario_value"
    by (simp add: lessThan_Suc numeral_2_eq_2 scenario_value_def del: One_nat_def)
       (simp add: rows [simplified])
  then show ?thesis
    using call_weighted [OF scenario_W_get _ len, of None] by (simp add: r)
qed

lemma half_sum_between:
  fixes a b x y L :: real
  shows "a < x \<Longrightarrow> b < y \<Longrightarrow> L < 1 / 2 * (a + b) \<Longrightarrow> L < 1 / 2 * (x + y)"
    and "x < a \<Longrightarrow> y < b \<Longrightarrow> 1 / 2 * (a + b) < L \<Longrightarrow> 1 / 2 * (x + y) < L"
  by simp_all

lemma scenario_value_bounds: "39973 / 10000 < scenario_value" "scenario_value < 39974 / 10000"
proof -
  define e :: real where "e = sqrt 5 / 100000"
  let ?p = "1 / (1 * (5 / 100) + e) * (1 / 10)" and ?q = "1 / (2 * (5 / 100) + e) * (- 2 / 10)"
  have e: "2236 / 100000000 < e" "e < 22361 / 1000000000"
    using sqrt5_bounds by (simp_all add: e_def)
  have p: "19991 / 10000 < ?p" "?p < 199911 / 100000"
    using e by (simp_all add: field_simps)
  have q: "199955 / 100000 < - ?q" "- ?q < 199956 / 100000"
    using e by (simp_all add: field_simps)
  have p2: "(19991 / 10000)\<^sup>2 < ?p\<^sup>2" "?p\<^sup>2 < (199911 / 100000)\<^sup>2"
    using p e by (auto intro!: power_strict_mono)
  have "(199955 / 100000)\<^sup>2 < (- ?q)\<^sup>2" "(- ?q)\<^sup>2 < (199956 / 100000)\<^sup>2"
    using q e by (auto intro!: power_strict_mono)
  then have q2: "(199955 / 100000)\<^sup>2 < ?q\<^sup>2" "?q\<^sup>2 < (199956 / 100000)\<^sup>2"
    by simp_all
  have lo: "39973 / 10000 < 1 / 2 * ((19991 / 10000 :: real)\<^sup>2 + (199955 / 100000)\<^sup>2)"
    by (simp add: power2_eq_square)
  have hi: "1 / 2 * ((199911 / 100000 :: real)\<^sup>2 + (199956 / 100000)\<^sup>2) < 39974 / 10000"
    by (simp add: power2_eq_square)
  have v: "scenario_value = 1 / 2 * (?p\<^sup>2 + ?q\<^sup>2)"
    by (simp add: scenario_value_def e_def)
  show "39973 / 10000 < scenario_value"
    unfolding v by (rule half_sum_between(1) [OF p2(1) q2(1) lo])
  show "scenario_value < 39974 / 10000"
    unfolding v by (rule half_sum_between(2) [OF p2(2) q2(2) hi])
qed


text \<open>
  C5, as the code has it. On an instance whose \<^verbatim>\<open>_W\<close> is unset and whose denominators
  \<open>|dobs\<^sub>i| std + eps\<close> are not 0, the first access to \<^verbatim>\<open>W\<close> builds
  \<open>sdiag (1 / (|dobs| std + eps))\<close> and stores it, and the next access returns the stored
  matrix. The constructor, for a paired survey with neither \<^verbatim>\<open>std\<close> nor \<^verbatim>\<open>eps\<close> and
  without keyword arguments, sets \<open>std = 0.05\<close> and \<open>eps = 1e-5 * \<parallel>dobs\<parallel>\<^sub>2\<close> and prints the two
  notices; it raises nothing. In the scenario \<open>dobs = (1, 2)\<close>, \<open>r = (0.1, -0.2)\<close> the
  misfit is between 3.9973 and 3.9974 (not 2.1998).
\<close>

theorem default_W_lazily_built:
  "(W_cache dm = None \<and> 0 \<notin> set (map (\<lambda>x. \<bar>x\<bar> * std dm + eps dm) (dobs (survey dm))) \<longrightarrow>
      W_get dm =
        Inr (sdiag (map (\<lambda>x. 1 / (\<bar>x\<bar> * std dm + eps dm)) (dobs (survey dm))),
             dm\<lparr>W_cache := Some (sdiag (map (\<lambda>x. 1 / (\<bar>x\<bar> * std dm + eps dm)) (dobs (survey dm))))\<rparr>)
      \<and> W_get (dm\<lparr>W_cache := Some (sdiag (map (\<lambda>x. 1 / (\<bar>x\<bar> * std dm + eps dm)) (dobs (survey dm))))\<rparr>)
        = Inr (sdiag (map (\<lambda>x. 1 / (\<bar>x\<bar> * std dm + eps dm)) (dobs (survey dm))),
               dm\<lparr>W_cache := Some (sdiag (map (\<lambda>x. 1 / (\<bar>x\<bar> * std dm + eps dm)) (dobs (survey dm))))\<rparr>))
   \<and> (ispaired sv \<and> survey_std sv = None \<and> survey_eps sv = None \<longrightarrow>
        l2_DataMisfit_init sv None None =
          Inr (\<lparr>survey = sv, prob = survey_prob sv, std = 5 / 100,
                eps = norm2 (dobs sv) * (1 / 100000), W_cache = None, scale = 1\<rparr>,
               [std_notice, eps_notice]))
   \<and> l2_DataMisfit_init scenario_survey None None = Inr (scenario_dm, [std_notice, eps_notice])
   \<and> call scenario_dm m None = Inr (scenario_value, scenario_dm\<lparr>W_cache := Some scenario_W\<rparr>)
   \<and> 39973 / 10000 < scenario_value \<and> scenario_value < 39974 / 10000"
proof -
  have built: "W_cache dm = None \<and> 0 \<notin> set (map (\<lambda>x. \<bar>x\<bar> * std dm + eps dm) (dobs (survey dm))) \<longrightarrow>
      W_get dm =
        Inr (sdiag (map (\<lambda>x. 1 / (\<bar>x\<bar> * std dm + eps dm)) (dobs (survey dm))),
             dm\<lparr>W_cache := Some (sdiag (map (\<lambda>x. 1 / (\<bar>x\<bar> * std dm + eps dm)) (dobs (survey dm))))\<rparr>)
      \<and> W_get (dm\<lparr>W_cache := Some (sdiag (map (\<lambda>x. 1 / (\<bar>x\<bar> * std dm + eps dm)) (dobs (survey dm))))\<rparr>)
        = Inr (sdiag (map (\<lambda>x. 1 / (\<bar>x\<bar> * std dm + eps dm)) (dobs (survey dm))),
               dm\<lparr>W_cache := Some (sdiag (map (\<lambda>x. 1 / (\<bar>x\<bar> * std dm + eps dm)) (dobs (survey dm))))\<rparr>)"
  proof (intro impI conjI)
    assume a: "W_cache dm = None \<and> 0 \<notin> set (map (\<lambda>x. \<bar>x\<bar> * std dm + eps dm) (dobs (survey dm)))"
    show "W_get dm =
        Inr (sdiag (map (\<lambda>x. 1 / (\<bar>x\<bar> * std dm + eps dm)) (dobs (survey dm))),
             dm\<lparr>W_cache := Some (sdiag (map (\<lambda>x. 1 / (\<bar>x\<bar> * std dm + eps dm)) (dobs (survey dm))))\<rparr>)"
      by (rule default_W_built [OF a [THEN conjunct1] a [THEN conjunct2]])
  next
    show "W_get (dm\<lparr>W_cache := Some (sdiag (map (\<lambda>x. 1 / (\<bar>x\<bar> * std dm + eps dm)) (dobs (survey dm))))\<rparr>)
        = Inr (sdiag (map (\<lambda>x. 1 / (\<bar>x\<bar> * std dm + eps dm)) (dobs (survey dm))),
               dm\<lparr>W_cache := Some (sdiag (map (\<lambda>x. 1 / (\<bar>x\<bar> * std dm + eps dm)) (dobs (survey dm))))\<rparr>)"
      by (rule W_cached_returned)
  qed
  have init: "ispaired sv \<and> survey_std sv = None \<and> survey_eps sv = None \<longrightarrow>
        l2_DataMisfit_init sv None None =
          Inr (\<lparr>survey = sv, prob = survey_prob sv, std = 5 / 100,
                eps = norm2 (dobs sv) * (1 / 100000), W_cache = None, scale = 1\<rparr>,
               [std_notice, eps_notice])"
  proof
    assume a: "ispaired sv \<and> survey_std sv = None \<and> survey_eps sv = None"
    show "l2_DataMisfit_init sv None None =
          Inr (\<lparr>survey = sv, prob = survey_prob sv, std = 5 / 100,
                eps = norm2 (dobs sv) * (1 / 100000), W_cache = None, scale = 1\<rparr>,
               [std_notice, eps_notice])"
      by (rule init_defaults [OF a [THEN conjunct1] a [THEN conjunct2, THEN conjunct1]
            a [THEN conjunct2, THEN conjunct2]])
  qed
  show ?thesis
    by (intro conjI built init scenario_init scenario_call scenario_value_bounds)
qed

theorem default_W_lazily_built_witness:
  "W_get scenario_dm = Inr (scenario_W, scenario_dm\<lparr>W_cache := Some scenario_W\<rparr>)
   \<and> W_get (scenario_dm\<lparr>W_cache := Some scenario_W\<rparr>)
       = Inr (scenario_W, scenario_dm\<lparr>W_cache := Some scenario_W\<rparr>)
   \<and> l2_DataMisfit_init scenario_survey None None = Inr (scenario_dm, [std_notice, eps_notice])"
proof -
  have "0 \<le> sqrt 5"
    by simp
  then have pos: "1 / 20 + sqrt 5 / 100000 \<noteq> 0" "1 / 10 + sqrt 5 / 100000 \<noteq> 0"
    by linarith+
  have n: "norm2 [1, 2] = sqrt 5"
    by (simp add: norm2_def)
  show ?thesis
    using default_W_lazily_built [of scenario_dm scenario_survey "[]"] pos n
    by (simp add: scenario_dm_def scenario_survey_def scenario_W_def)
qed

text \<open>
  C5 as stated fails in its last sentence: in the scenario the misfit is more than 1
  away from 2.1998.
\<close>

theorem scenario_misfit_not_2_1998:
  "call scenario_dm [] None = Inr (scenario_value, scenario_dm\<lparr>W_cache := Some scenario_W\<rparr>)
   \<and> 1 < \<bar>scenario_value - 21998 / 10000\<bar>"
  using scenario_call [of "[]"] scenario_value_bounds by simp

end
